theory Spec2Isabelle
  imports Main
begin

section \<open>The view-state controller of \<^verbatim>\<open>src/App.tsx\<close>\<close>

text \<open>
  \<^verbatim>\<open>App\<close> keeps its state in eight \<^verbatim>\<open>useState\<close> hooks and changes it only through
  the setters, each called with a value (never with an updater function). A handler is
  therefore a function from the state before the event to the state after it, and a
  setter call is a record update. A value of type \<^verbatim>\<open>T | null\<close> is a \<open>T option\<close>.

  The numbers of a GPS fix are stored and handed on, never computed with, so their type
  is the parameter \<open>'n\<close>.
\<close>

subsection \<open>Data (\<^verbatim>\<open>src/types.ts\<close> and the hooks of \<^verbatim>\<open>App\<close>)\<close>

record 'n coordinates =
  latitude :: 'n
  longitude :: 'n
  accuracy :: "'n option"

datatype view = Home | Camera | Preview | Analysis

record 'n app_state =
  view :: view
  imageSrc :: "string option"
  location :: "'n coordinates option"
  locationError :: "string option"
  isLoadingLocation :: bool
  analysisResult :: "string option"
  isAnalyzing :: bool
  error :: "string option"

text \<open>The initial values of the hooks (lines 18 to 25).\<close>

definition initial :: "'n app_state" where
  "initial =
     \<lparr>view = Home, imageSrc = None, location = None, locationError = None,
      isLoadingLocation = False, analysisResult = None, isAnalyzing = False,
      error = None\<rparr>"

text \<open>
  JavaScript truthiness of a \<^verbatim>\<open>string | null\<close> (or \<^verbatim>\<open>string | undefined\<close>) value:
  \<^verbatim>\<open>null\<close>, \<^verbatim>\<open>undefined\<close> and the empty string are falsy. It decides \<^verbatim>\<open>!imageSrc\<close>,
  \<^verbatim>\<open>imageSrc && ...\<close> and \<^verbatim>\<open>err.message || "Analysis failed."\<close>.
\<close>

fun truthy :: "string option \<Rightarrow> bool" where
  "truthy None = False"
| "truthy (Some s) = (s \<noteq> [])"

text \<open>\<^verbatim>\<open>a || d\<close> for such a value \<^verbatim>\<open>a\<close> and a string \<^verbatim>\<open>d\<close>.\<close>

fun or_else :: "string option \<Rightarrow> string \<Rightarrow> string" where
  "or_else None d = d"
| "or_else (Some s) d = (if s = [] then d else s)"

subsection \<open>Location (lines 28 to 60)\<close>

text \<open>
  \<^verbatim>\<open>handleGetLocation\<close> up to its return. The first argument is whether
  \<^verbatim>\<open>navigator.geolocation\<close> is there; the second component of the result is whether
  \<^verbatim>\<open>getCurrentPosition\<close> was called.
\<close>

definition handleGetLocation :: "bool \<Rightarrow> 'n app_state \<Rightarrow> 'n app_state \<times> bool" where
  "handleGetLocation supported s =
     (if \<not> supported
      then (s\<lparr>locationError := Some ''Geolocation is not supported by your device.''\<rparr>, False)
      else (s\<lparr>isLoadingLocation := True, locationError := None, error := None\<rparr>, True))"

text \<open>The success callback, applied to \<^verbatim>\<open>position.coords\<close>.\<close>

definition handleGetLocation_success :: "'n \<Rightarrow> 'n \<Rightarrow> 'n \<Rightarrow> 'n app_state \<Rightarrow> 'n app_state" where
  "handleGetLocation_success lat lon acc s =
     s\<lparr>location := Some \<lparr>latitude = lat, longitude = lon, accuracy = Some acc\<rparr>,
       isLoadingLocation := False\<rparr>"

text \<open>The message chosen from \<^verbatim>\<open>err.code\<close> (lines 49 to 52).\<close>

definition geolocation_message :: "int \<Rightarrow> string" where
  "geolocation_message code =
     (if code = 1 then ''Location permission denied.''
      else if code = 2 then ''Position unavailable.''
      else if code = 3 then ''Location request timed out.''
      else ''Unable to retrieve location.'')"

text \<open>The error callback, applied to \<^verbatim>\<open>err.code\<close>.\<close>

definition handleGetLocation_error :: "int \<Rightarrow> 'n app_state \<Rightarrow> 'n app_state" where
  "handleGetLocation_error code s =
     (let msg = geolocation_message code
      in s\<lparr>locationError := Some msg, error := Some msg, isLoadingLocation := False\<rparr>)"

subsection \<open>Camera (lines 63 to 76)\<close>

definition handleOpenCamera :: "'n app_state \<Rightarrow> 'n app_state" where
  "handleOpenCamera s = s\<lparr>error := None, view := Camera\<rparr>"

definition handleCapture :: "string \<Rightarrow> 'n app_state \<Rightarrow> 'n app_state" where
  "handleCapture src s = s\<lparr>imageSrc := Some src, view := Preview\<rparr>"

definition handleCameraError :: "string \<Rightarrow> 'n app_state \<Rightarrow> 'n app_state" where
  "handleCameraError err s = s\<lparr>error := Some err\<rparr>"

subsection \<open>Preview and analysis (lines 79 to 107)\<close>

definition handleRetake :: "'n app_state \<Rightarrow> 'n app_state" where
  "handleRetake s = s\<lparr>imageSrc := None, view := Camera\<rparr>"

text \<open>
  \<^verbatim>\<open>handleUsePhoto\<close> is an async function. It runs up to its \<^verbatim>\<open>await\<close> inside the event
  that invoked it; the rest runs in a later event, when the promise of
  \<^verbatim>\<open>analyzeImageWithLocation\<close> settles. The first part returns the new state and the call
  it made, if any: the arguments are the \<^verbatim>\<open>imageSrc\<close> and \<^verbatim>\<open>location\<close> of the state the
  handler was rendered with.
\<close>

type_synonym 'n analysis_call = "string \<times> 'n coordinates option"

definition handleUsePhoto :: "'n app_state \<Rightarrow> 'n app_state \<times> 'n analysis_call option" where
  "handleUsePhoto s =
     (case imageSrc s of
        None \<Rightarrow> (s, None)
      | Some src \<Rightarrow>
          if src = [] then (s, None)
          else (s\<lparr>isAnalyzing := True, error := None, view := Analysis\<rparr>,
                Some (src, location s)))"

text \<open>
  How the awaited promise settles: with the text, or with an error whose \<^verbatim>\<open>message\<close>
  may be missing (\<^verbatim>\<open>analyzeImageWithLocation\<close> is not among the sources; an error it
  throws is taken to be an object).
\<close>

datatype outcome = Fulfilled string | Rejected "string option"

text \<open>The rest of \<^verbatim>\<open>handleUsePhoto\<close>: \<^verbatim>\<open>try\<close> or \<^verbatim>\<open>catch\<close>, then \<^verbatim>\<open>finally\<close>.\<close>

fun handleUsePhoto_settled :: "outcome \<Rightarrow> 'n app_state \<Rightarrow> 'n app_state" where
  "handleUsePhoto_settled (Fulfilled result) s =
     (s\<lparr>analysisResult := Some result\<rparr>)\<lparr>isAnalyzing := False\<rparr>"
| "handleUsePhoto_settled (Rejected message) s =
     (s\<lparr>error := Some (or_else message ''Analysis failed.'')\<rparr>)\<lparr>isAnalyzing := False\<rparr>"

definition handleBackToHome :: "'n app_state \<Rightarrow> 'n app_state" where
  "handleBackToHome s =
     s\<lparr>view := Home, error := None, imageSrc := None, analysisResult := None\<rparr>"

text \<open>The back button of \<^verbatim>\<open>Header\<close> (line 116).\<close>

definition headerBack :: "'n app_state \<Rightarrow> 'n app_state" where
  "headerBack s = (if view s = Preview then handleRetake s else handleBackToHome s)"

subsection \<open>Events\<close>

text \<open>
  The controller together with what it is waiting for: the analysis calls in flight,
  each with its arguments, and the number of position requests in flight.
\<close>

record 'n config =
  app :: "'n app_state"
  inflight :: "'n analysis_call list"
  locating :: nat

definition start :: "'n config" where
  "start = \<lparr>app = initial, inflight = [], locating = 0\<rparr>"

text \<open>
  One event: a handler invoked by the user or by the camera component, or a callback
  of a pending request. \<open>AnalysisSettled i r\<close> settles the \<open>i\<close>-th call in flight.
\<close>

datatype 'n event =
    GetLocation bool
  | PositionFound 'n 'n 'n
  | PositionFailed int
  | OpenCamera
  | Captured string
  | CameraFailed string
  | Retake
  | UsePhoto
  | BackToHome
  | HeaderBack
  | AnalysisSettled nat outcome

text \<open>
  The effect of an event; \<open>None\<close> when a callback has no request to answer. A handler is
  applied whatever the view is.
\<close>

fun dispatch :: "'n event \<Rightarrow> 'n config \<Rightarrow> 'n config option" where
  "dispatch (GetLocation supported) c =
     (case handleGetLocation supported (app c) of
        (s, asked) \<Rightarrow> Some (c\<lparr>app := s, locating := (if asked then Suc (locating c) else locating c)\<rparr>))"
| "dispatch (PositionFound lat lon acc) c =
     (if locating c = 0 then None
      else Some (c\<lparr>app := handleGetLocation_success lat lon acc (app c), locating := locating c - 1\<rparr>))"
| "dispatch (PositionFailed code) c =
     (if locating c = 0 then None
      else Some (c\<lparr>app := handleGetLocation_error code (app c), locating := locating c - 1\<rparr>))"
| "dispatch OpenCamera c = Some (c\<lparr>app := handleOpenCamera (app c)\<rparr>)"
| "dispatch (Captured src) c = Some (c\<lparr>app := handleCapture src (app c)\<rparr>)"
| "dispatch (CameraFailed err) c = Some (c\<lparr>app := handleCameraError err (app c)\<rparr>)"
| "dispatch Retake c = Some (c\<lparr>app := handleRetake (app c)\<rparr>)"
| "dispatch UsePhoto c =
     (case handleUsePhoto (app c) of
        (s, None) \<Rightarrow> Some (c\<lparr>app := s\<rparr>)
      | (s, Some call) \<Rightarrow> Some (c\<lparr>app := s, inflight := inflight c @ [call]\<rparr>))"
| "dispatch BackToHome c = Some (c\<lparr>app := handleBackToHome (app c)\<rparr>)"
| "dispatch HeaderBack c = Some (c\<lparr>app := headerBack (app c)\<rparr>)"
| "dispatch (AnalysisSettled i r) c =
     (if i < length (inflight c)
      then Some (c\<lparr>app := handleUsePhoto_settled r (app c),
                   inflight := take i (inflight c) @ drop (Suc i) (inflight c)\<rparr>)
      else None)"

text \<open>
  What the rendered screen offers (lines 150 to 314): the buttons of the view on
  display, the callbacks of the camera component while it is mounted, and the callbacks
  of pending requests at any time. The preview is rendered only with a truthy image.
\<close>

fun offered :: "'n config \<Rightarrow> 'n event \<Rightarrow> bool" where
  "offered c (GetLocation _) = (view (app c) = Home)"
| "offered c OpenCamera = (view (app c) = Home)"
| "offered c (Captured _) = (view (app c) = Camera)"
| "offered c (CameraFailed _) = (view (app c) = Camera)"
| "offered c Retake = (view (app c) = Preview \<and> truthy (imageSrc (app c)))"
| "offered c UsePhoto = (view (app c) = Preview \<and> truthy (imageSrc (app c)))"
| "offered c BackToHome = (view (app c) = Camera \<or> view (app c) = Analysis)"
| "offered c HeaderBack =
     (view (app c) = Preview \<and> truthy (imageSrc (app c)) \<or> view (app c) = Analysis)"
| "offered c (PositionFound _ _ _) = True"
| "offered c (PositionFailed _) = True"
| "offered c (AnalysisSettled _ _) = True"

text \<open>
  A run: the events one after the other, each allowed by the guard \<open>g\<close> in the state it
  meets.
\<close>

fun run :: "('n config \<Rightarrow> 'n event \<Rightarrow> bool) \<Rightarrow> 'n event list \<Rightarrow> 'n config \<Rightarrow> 'n config option" where
  "run g [] c = Some c"
| "run g (e # es) c =
     (if g c e then (case dispatch e c of None \<Rightarrow> None | Some c' \<Rightarrow> run g es c') else None)"

text \<open>No restriction: any handler at any time.\<close>

definition anytime :: "'n config \<Rightarrow> 'n event \<Rightarrow> bool" where
  "anytime c e = True"

text \<open>
  The rendered screen, and moreover no analysis call is fulfilled after the user has
  left the analysis view.
\<close>

fun timely :: "'n config \<Rightarrow> 'n event \<Rightarrow> bool" where
  "timely c (AnalysisSettled i (Fulfilled result)) = (view (app c) = Analysis)"
| "timely c e = offered c e"

section \<open>Properties\<close>

subsection \<open>Stepping through a run\<close>

text \<open>A property that every allowed event preserves holds at the end of a run.\<close>

lemma run_invariant:
  assumes step: "\<And>e c c'. g c e \<Longrightarrow> dispatch e c = Some c' \<Longrightarrow> P c \<Longrightarrow> P c'"
  shows "run g es c = Some c' \<Longrightarrow> P c \<Longrightarrow> P c'"
proof (induction es arbitrary: c)
  case Nil
  then show ?case by simp
next
  case (Cons e es)
  from Cons.prems(1) obtain d where g: "g c e" and d: "dispatch e c = Some d"
    and r: "run g es d = Some c'"
    by (auto split: if_splits option.splits)
  from step [OF g d Cons.prems(2)] have "P d" .
  with Cons.IH [OF r] show ?case .
qed

text \<open>Only \<^verbatim>\<open>handleCapture\<close> shows the preview, and it stores the image it shows.\<close>

lemma dispatch_preview_image:
  assumes "dispatch e c = Some c'"
    and "view (app c) = Preview \<longrightarrow> imageSrc (app c) \<noteq> None"
  shows "view (app c') = Preview \<longrightarrow> imageSrc (app c') \<noteq> None"
proof (cases e)
  case (GetLocation b)
  with assms show ?thesis by (auto simp: handleGetLocation_def split: if_splits)
next
  case (PositionFound a b d)
  with assms show ?thesis by (auto simp: handleGetLocation_success_def split: if_splits)
next
  case (PositionFailed k)
  with assms show ?thesis by (auto simp: handleGetLocation_error_def Let_def split: if_splits)
next
  case OpenCamera
  with assms show ?thesis by (auto simp: handleOpenCamera_def)
next
  case (Captured src)
  with assms show ?thesis by (auto simp: handleCapture_def)
next
  case (CameraFailed m)
  with assms show ?thesis by (auto simp: handleCameraError_def)
next
  case Retake
  with assms show ?thesis by (auto simp: handleRetake_def)
next
  case UsePhoto
  with assms show ?thesis
    by (auto simp: handleUsePhoto_def split: option.splits if_splits)
next
  case BackToHome
  with assms show ?thesis by (auto simp: handleBackToHome_def)
next
  case HeaderBack
  with assms show ?thesis
    by (auto simp: headerBack_def handleRetake_def handleBackToHome_def split: if_splits)
next
  case (AnalysisSettled i r)
  with assms show ?thesis by (cases r) (auto split: if_splits)
qed

text \<open>
  While no call is fulfilled outside the analysis view, a stored result is only ever
  there in the analysis view with the flag down.
\<close>

lemma dispatch_timely_result:
  assumes "timely c e" and "dispatch e c = Some c'"
    and "isAnalyzing (app c) \<or> view (app c) \<noteq> Analysis \<longrightarrow> analysisResult (app c) = None"
  shows "isAnalyzing (app c') \<or> view (app c') \<noteq> Analysis \<longrightarrow> analysisResult (app c') = None"
proof (cases e)
  case (GetLocation b)
  with assms show ?thesis by (auto simp: handleGetLocation_def split: if_splits)
next
  case (PositionFound a b d)
  with assms show ?thesis by (auto simp: handleGetLocation_success_def split: if_splits)
next
  case (PositionFailed k)
  with assms show ?thesis by (auto simp: handleGetLocation_error_def Let_def split: if_splits)
next
  case OpenCamera
  with assms show ?thesis by (auto simp: handleOpenCamera_def)
next
  case (Captured src)
  with assms show ?thesis by (auto simp: handleCapture_def)
next
  case (CameraFailed m)
  with assms show ?thesis by (auto simp: handleCameraError_def)
next
  case Retake
  with assms show ?thesis by (auto simp: handleRetake_def)
next
  case UsePhoto
  with assms show ?thesis
    by (auto simp: handleUsePhoto_def split: option.splits if_splits)
next
  case BackToHome
  with assms show ?thesis by (auto simp: handleBackToHome_def)
next
  case HeaderBack
  with assms show ?thesis
    by (auto simp: headerBack_def handleRetake_def handleBackToHome_def split: if_splits)
next
  case (AnalysisSettled i r)
  with assms show ?thesis by (cases r) (auto split: if_splits)
qed

subsection \<open>Location errors\<close>

text \<open>
  C1: when the position request fails with code 1, 2 or 3, the error callback of
  \<^verbatim>\<open>handleGetLocation\<close> stores 'Location permission denied.', 'Position unavailable.' or
  'Location request timed out.' as the location error and as the general error; with any
  other code it stores 'Unable to retrieve location.' in both.
\<close>

theorem location_error_messages:
  "locationError (handleGetLocation_error 1 s) = Some ''Location permission denied.'' \<and>
   error (handleGetLocation_error 1 s) = Some ''Location permission denied.'' \<and>
   locationError (handleGetLocation_error 2 s) = Some ''Position unavailable.'' \<and>
   error (handleGetLocation_error 2 s) = Some ''Position unavailable.'' \<and>
   locationError (handleGetLocation_error 3 s) = Some ''Location request timed out.'' \<and>
   error (handleGetLocation_error 3 s) = Some ''Location request timed out.'' \<and>
   (code \<noteq> 1 \<and> code \<noteq> 2 \<and> code \<noteq> 3 \<longrightarrow>
      locationError (handleGetLocation_error code s) = Some ''Unable to retrieve location.'' \<and>
      error (handleGetLocation_error code s) = Some ''Unable to retrieve location.'')"
  by (simp add: handleGetLocation_error_def geolocation_message_def Let_def)

text \<open>Code 0, which no branch names, in the initial state.\<close>

theorem location_error_messages_witness:
  "locationError (handleGetLocation_error 0 (initial :: int app_state)) =
     Some ''Unable to retrieve location.'' \<and>
   error (handleGetLocation_error 0 (initial :: int app_state)) =
     Some ''Unable to retrieve location.''"
  using location_error_messages [of "initial :: int app_state" 0] by simp

text \<open>
  C7: every failure of a collaborator puts its message into the general error. It does
  not when geolocation is unsupported: \<^verbatim>\<open>handleGetLocation\<close> then sets the location error
  alone and returns, and the general error keeps the value it had (here none), while the
  error callback a few lines below sets both.
\<close>

theorem unsupported_geolocation_general_error:
  "handleGetLocation False (initial :: int app_state) =
     (\<lparr>view = Home, imageSrc = None, location = None,
       locationError = Some ''Geolocation is not supported by your device.'',
       isLoadingLocation = False, analysisResult = None, isAnalyzing = False,
       error = None\<rparr>, False)"
  by (simp add: handleGetLocation_def initial_def)

subsection \<open>Use photo\<close>

text \<open>
  C2: with no image, \<^verbatim>\<open>handleUsePhoto\<close> returns the state it was given and makes no
  call; as an event it leaves the whole configuration, calls in flight included, as it
  was.
\<close>

theorem usePhoto_without_image:
  "imageSrc (app c) = None \<Longrightarrow>
     handleUsePhoto (app c) = (app c, None) \<and> dispatch UsePhoto c = Some c"
  by (simp add: handleUsePhoto_def)

theorem usePhoto_without_image_witness:
  "imageSrc (app (start :: int config)) = None \<and>
   handleUsePhoto (app (start :: int config)) = (app start, None) \<and>
   dispatch UsePhoto (start :: int config) = Some start"
proof -
  have h: "imageSrc (app (start :: int config)) = None"
    by (simp add: start_def initial_def)
  from usePhoto_without_image [OF h] h show ?thesis by simp
qed

text \<open>
  C5: with an image, \<^verbatim>\<open>handleUsePhoto\<close> calls the analysis client with the image and
  the current location and raises the in-progress flag; when the call is fulfilled with
  the text \<open>t\<close> the flag is down and the result is \<open>t\<close>. The last two conjuncts say the
  same of a fulfilment that meets any state \<open>s'\<close>, whatever happened in between.
\<close>

theorem usePhoto_success:
  assumes "imageSrc s = Some src" and "src \<noteq> []"
  shows "snd (handleUsePhoto s) = Some (src, location s) \<and>
         isAnalyzing (fst (handleUsePhoto s)) \<and>
         \<not> isAnalyzing (handleUsePhoto_settled (Fulfilled t) (fst (handleUsePhoto s))) \<and>
         analysisResult (handleUsePhoto_settled (Fulfilled t) (fst (handleUsePhoto s))) = Some t \<and>
         \<not> isAnalyzing (handleUsePhoto_settled (Fulfilled t) s') \<and>
         analysisResult (handleUsePhoto_settled (Fulfilled t) s') = Some t"
  using assms by (simp add: handleUsePhoto_def)

text \<open>The scenario of the specification: open the camera, capture, use the photo.\<close>

theorem usePhoto_success_witness:
  "imageSrc (handleCapture ''img1'' (handleOpenCamera (initial :: int app_state))) = Some ''img1'' \<and>
   view (fst (handleUsePhoto (handleCapture ''img1'' (handleOpenCamera (initial :: int app_state))))) = Analysis \<and>
   isAnalyzing (fst (handleUsePhoto (handleCapture ''img1'' (handleOpenCamera (initial :: int app_state))))) \<and>
   \<not> isAnalyzing (handleUsePhoto_settled (Fulfilled ''A red bicycle.'')
        (fst (handleUsePhoto (handleCapture ''img1'' (handleOpenCamera (initial :: int app_state)))))) \<and>
   analysisResult (handleUsePhoto_settled (Fulfilled ''A red bicycle.'')
        (fst (handleUsePhoto (handleCapture ''img1'' (handleOpenCamera (initial :: int app_state)))))) =
     Some ''A red bicycle.''"
proof -
  have h: "imageSrc (handleCapture ''img1'' (handleOpenCamera (initial :: int app_state))) = Some ''img1''"
    by (simp add: handleCapture_def)
  have v: "view (fst (handleUsePhoto (handleCapture ''img1'' (handleOpenCamera (initial :: int app_state))))) = Analysis"
    by (simp add: handleUsePhoto_def handleCapture_def)
  have n: "''img1'' \<noteq> []" by simp
  from usePhoto_success [OF h n, of "''A red bicycle.''"] h v show ?thesis by simp
qed

text \<open>
  C4, as stated, fails: a failed call does not leave the result absent when a result is
  already stored. Here the user leaves the analysis view while the first call is pending,
  that call is fulfilled afterwards, and the second photo's call is rejected: the first
  photo's text is still the result.
\<close>

theorem stale_result_after_failed_analysis:
  "run offered [OpenCamera, Captured ''img1'', UsePhoto, BackToHome,
      AnalysisSettled 0 (Fulfilled ''A red bicycle.''), OpenCamera, Captured ''img2'', UsePhoto,
      AnalysisSettled 0 (Rejected (Some ''Network error''))]
     (start :: int config) =
   Some \<lparr>app = \<lparr>view = Analysis, imageSrc = Some ''img2'', location = None,
                locationError = None, isLoadingLocation = False,
                analysisResult = Some ''A red bicycle.'', isAnalyzing = False,
                error = Some ''Network error''\<rparr>,
         inflight = [], locating = 0\<rparr>"
  by (simp add: start_def initial_def handleOpenCamera_def handleCapture_def handleUsePhoto_def
      handleBackToHome_def)

text \<open>
  C4, amended: neither half of \<^verbatim>\<open>handleUsePhoto\<close> writes the analysis result. With an
  image, the invocation makes the call, raises the in-progress flag and keeps the result
  of the state it is invoked in. When the call is rejected with an error object, the
  rest of the handler, in whatever state \<open>s'\<close> it meets (other events may have run since
  the invocation), lowers the flag, keeps the result of \<open>s'\<close>, and sets the general
  error: to the error's message, or to 'Analysis failed.' when the message is missing or
  empty.
\<close>

theorem usePhoto_failure:
  assumes "imageSrc s = Some src" and "src \<noteq> []"
  shows "snd (handleUsePhoto s) = Some (src, location s) \<and>
         isAnalyzing (fst (handleUsePhoto s)) \<and>
         analysisResult (fst (handleUsePhoto s)) = analysisResult s \<and>
         \<not> isAnalyzing (handleUsePhoto_settled (Rejected m) s') \<and>
         analysisResult (handleUsePhoto_settled (Rejected m) s') = analysisResult s' \<and>
         error (handleUsePhoto_settled (Rejected m) s') \<noteq> None \<and>
         (m = None \<or> m = Some [] \<longrightarrow>
            error (handleUsePhoto_settled (Rejected m) s') = Some ''Analysis failed.'') \<and>
         (\<forall>t. m = Some t \<and> t \<noteq> [] \<longrightarrow>
            error (handleUsePhoto_settled (Rejected m) s') = Some t)"
  using assms by (auto simp: handleUsePhoto_def)

text \<open>
  A first photo whose call is rejected with an error that has no message, the rejection
  meeting the state the invocation returned: the flag goes up and down, the result stays
  absent, the fallback is the error.
\<close>

theorem usePhoto_failure_witness:
  "imageSrc (handleCapture ''img1'' (handleOpenCamera (initial :: int app_state))) = Some ''img1'' \<and>
   snd (handleUsePhoto (handleCapture ''img1'' (handleOpenCamera (initial :: int app_state)))) = Some (''img1'', None) \<and>
   isAnalyzing (fst (handleUsePhoto (handleCapture ''img1'' (handleOpenCamera (initial :: int app_state))))) \<and>
   analysisResult (fst (handleUsePhoto (handleCapture ''img1'' (handleOpenCamera (initial :: int app_state))))) = None \<and>
   \<not> isAnalyzing (handleUsePhoto_settled (Rejected None) (fst (handleUsePhoto (handleCapture ''img1'' (handleOpenCamera (initial :: int app_state)))))) \<and>
   analysisResult (handleUsePhoto_settled (Rejected None) (fst (handleUsePhoto (handleCapture ''img1'' (handleOpenCamera (initial :: int app_state)))))) = None \<and>
   error (handleUsePhoto_settled (Rejected None) (fst (handleUsePhoto (handleCapture ''img1'' (handleOpenCamera (initial :: int app_state)))))) =
     Some ''Analysis failed.''"
proof -
  have h: "imageSrc (handleCapture ''img1'' (handleOpenCamera (initial :: int app_state))) = Some ''img1''"
    by (simp add: handleCapture_def)
  have r: "analysisResult (handleCapture ''img1'' (handleOpenCamera (initial :: int app_state))) = None"
    by (simp add: handleCapture_def handleOpenCamera_def initial_def)
  have l: "location (handleCapture ''img1'' (handleOpenCamera (initial :: int app_state))) = None"
    by (simp add: handleCapture_def handleOpenCamera_def initial_def)
  have n: "''img1'' \<noteq> []" by simp
  from usePhoto_failure [OF h n, of None "fst (handleUsePhoto (handleCapture ''img1'' (handleOpenCamera (initial :: int app_state))))"] h r l
  show ?thesis by simp
qed

subsection \<open>Leaving a view\<close>

text \<open>
  C3: after \<^verbatim>\<open>handleBackToHome\<close> the view is home, the image, the analysis result and
  the general error are absent, and the location and the location error are what they
  were before.
\<close>

theorem backToHome_effect:
  "view (handleBackToHome s) = Home \<and>
   imageSrc (handleBackToHome s) = None \<and>
   analysisResult (handleBackToHome s) = None \<and>
   error (handleBackToHome s) = None \<and>
   location (handleBackToHome s) = location s \<and>
   locationError (handleBackToHome s) = locationError s"
  by (simp add: handleBackToHome_def)

text \<open>
  C9: after \<^verbatim>\<open>handleRetake\<close> the image is absent and the view is the camera; and the
  back button of the header, pressed in the preview, is \<^verbatim>\<open>handleRetake\<close>.
\<close>

theorem retake_effect:
  "imageSrc (handleRetake s) = None \<and> view (handleRetake s) = Camera \<and>
   (view s = Preview \<longrightarrow> headerBack s = handleRetake s)"
  by (simp add: handleRetake_def headerBack_def)

text \<open>Back from the preview of a captured photo: the camera, not home.\<close>

theorem retake_effect_witness:
  "view (handleCapture ''img1'' (handleOpenCamera (initial :: int app_state))) = Preview \<and>
   headerBack (handleCapture ''img1'' (handleOpenCamera (initial :: int app_state))) = handleRetake (handleCapture ''img1'' (handleOpenCamera (initial :: int app_state))) \<and>
   view (headerBack (handleCapture ''img1'' (handleOpenCamera (initial :: int app_state)))) = Camera \<and>
   imageSrc (headerBack (handleCapture ''img1'' (handleOpenCamera (initial :: int app_state)))) = None"
proof -
  have v: "view (handleCapture ''img1'' (handleOpenCamera (initial :: int app_state))) = Preview"
    by (simp add: handleCapture_def)
  from retake_effect [of "(handleCapture ''img1'' (handleOpenCamera (initial :: int app_state)))"] v
  show ?thesis by simp
qed

text \<open>
  C10: \<^verbatim>\<open>handleBackToHome\<close> leaves the in-progress flag as it is and shows home; the
  analysis view offers it whether or not a call is pending; and the rest of
  \<^verbatim>\<open>handleUsePhoto\<close>, whenever it runs and whatever the view is then, keeps the view, lowers
  the flag and stores the result or the general error.
\<close>

theorem backToHome_during_analysis:
  "isAnalyzing (handleBackToHome s) = isAnalyzing s \<and>
   view (handleBackToHome s) = Home \<and>
   (view (app c) = Analysis \<longrightarrow>
      offered c BackToHome \<and> offered c HeaderBack \<and>
      headerBack (app c) = handleBackToHome (app c)) \<and>
   view (handleUsePhoto_settled r s) = view s \<and>
   \<not> isAnalyzing (handleUsePhoto_settled r s) \<and>
   analysisResult (handleUsePhoto_settled (Fulfilled t) s) = Some t \<and>
   error (handleUsePhoto_settled (Rejected m) s) = Some (or_else m ''Analysis failed.'')"
  by (cases r) (auto simp: handleBackToHome_def headerBack_def)

text \<open>
  Done is pressed while the call for the first photo is pending: home, with the flag
  up and the call in flight. The call is fulfilled afterwards: the result is stored and
  the flag lowered, at home.
\<close>

theorem backToHome_during_analysis_witness:
  "offered \<lparr>app = \<lparr>view = Analysis, imageSrc = Some ''img1'', location = None,
                  locationError = None, isLoadingLocation = False, analysisResult = None,
                  isAnalyzing = True, error = None\<rparr>,
           inflight = [(''img1'', None)], locating = 0\<rparr> BackToHome \<and>
   run offered [OpenCamera, Captured ''img1'', UsePhoto] (start :: int config) =
     Some \<lparr>app = \<lparr>view = Analysis, imageSrc = Some ''img1'', location = None,
                  locationError = None, isLoadingLocation = False, analysisResult = None,
                  isAnalyzing = True, error = None\<rparr>,
           inflight = [(''img1'', None)], locating = 0\<rparr> \<and>
   run offered [OpenCamera, Captured ''img1'', UsePhoto, BackToHome] (start :: int config) =
     Some \<lparr>app = \<lparr>view = Home, imageSrc = None, location = None,
                  locationError = None, isLoadingLocation = False, analysisResult = None,
                  isAnalyzing = True, error = None\<rparr>,
           inflight = [(''img1'', None)], locating = 0\<rparr> \<and>
   run offered [OpenCamera, Captured ''img1'', UsePhoto, BackToHome,
        AnalysisSettled 0 (Fulfilled ''A red bicycle.'')] (start :: int config) =
     Some \<lparr>app = \<lparr>view = Home, imageSrc = None, location = None,
                  locationError = None, isLoadingLocation = False, analysisResult = Some ''A red bicycle.'',
                  isAnalyzing = False, error = None\<rparr>,
           inflight = [], locating = 0\<rparr>"
proof -
  have v: "view (app \<lparr>app = \<lparr>view = Analysis, imageSrc = Some ''img1'', location = None,
                  locationError = None, isLoadingLocation = False, analysisResult = None,
                  isAnalyzing = True, error = None\<rparr>,
           inflight = [(''img1'', None)] :: int analysis_call list, locating = (0::nat)\<rparr>) = Analysis"
    by simp
  from backToHome_during_analysis [of _ "\<lparr>app = \<lparr>view = Analysis, imageSrc = Some ''img1'', location = None,
                  locationError = None, isLoadingLocation = False, analysisResult = None,
                  isAnalyzing = True, error = None\<rparr>,
           inflight = [(''img1'', None)] :: int analysis_call list, locating = (0::nat)\<rparr>"] v
  have "offered \<lparr>app = \<lparr>view = Analysis, imageSrc = Some ''img1'', location = None,
                  locationError = None, isLoadingLocation = False, analysisResult = None,
                  isAnalyzing = True, error = None\<rparr>,
           inflight = [(''img1'', None)] :: int analysis_call list, locating = (0::nat)\<rparr> BackToHome"
    by blast
  then show ?thesis
    by (simp add: start_def initial_def handleOpenCamera_def handleCapture_def
        handleUsePhoto_def handleBackToHome_def)
qed

subsection \<open>What holds in every state a run reaches\<close>

text \<open>
  C8: in every state reached from the initial one by handlers and callbacks in any
  order, the image is present whenever the view is the preview.
\<close>

theorem preview_has_image:
  assumes "run anytime es start = Some c" and "view (app c) = Preview"
  shows "imageSrc (app c) \<noteq> None"
proof -
  have "view (app c) = Preview \<longrightarrow> imageSrc (app c) \<noteq> None"
  proof (rule run_invariant [where P = "\<lambda>c. view (app c) = Preview \<longrightarrow> imageSrc (app c) \<noteq> None",
        OF _ assms(1)])
    show "view (app (start :: 'a config)) = Preview \<longrightarrow> imageSrc (app (start :: 'a config)) \<noteq> None"
      by (simp add: start_def initial_def)
  next
    fix e and c c' :: "'a config"
    assume "dispatch e c = Some c'" "view (app c) = Preview \<longrightarrow> imageSrc (app c) \<noteq> None"
    then show "view (app c') = Preview \<longrightarrow> imageSrc (app c') \<noteq> None"
      by (rule dispatch_preview_image)
  qed
  with assms(2) show ?thesis by simp
qed

theorem preview_has_image_witness:
  "run anytime [OpenCamera, Captured ''img1''] (start :: int config) =
     Some \<lparr>app = \<lparr>view = Preview, imageSrc = Some ''img1'', location = None,
                  locationError = None, isLoadingLocation = False, analysisResult = None,
                  isAnalyzing = False, error = None\<rparr>,
           inflight = [], locating = 0\<rparr> \<and>
   imageSrc (app \<lparr>app = \<lparr>view = Preview, imageSrc = Some ''img1'', location = None,
                  locationError = None, isLoadingLocation = False, analysisResult = None,
                  isAnalyzing = False, error = None\<rparr>,
           inflight = [] :: int analysis_call list, locating = (0::nat)\<rparr>) \<noteq> None"
proof -
  have r: "run anytime [OpenCamera, Captured ''img1''] (start :: int config) =
     Some \<lparr>app = \<lparr>view = Preview, imageSrc = Some ''img1'', location = None,
                  locationError = None, isLoadingLocation = False, analysisResult = None,
                  isAnalyzing = False, error = None\<rparr>,
           inflight = [], locating = 0\<rparr>"
    by (simp add: anytime_def start_def initial_def handleOpenCamera_def handleCapture_def)
  have "imageSrc (app \<lparr>app = \<lparr>view = Preview, imageSrc = Some ''img1'', location = None,
                  locationError = None, isLoadingLocation = False, analysisResult = None,
                  isAnalyzing = False, error = None\<rparr>,
           inflight = [] :: int analysis_call list, locating = (0::nat)\<rparr>) \<noteq> None"
    by (rule preview_has_image [OF r]) simp
  with r show ?thesis by simp
qed

text \<open>
  C6, as stated, fails. The user presses Done while the call for the first photo is
  pending, that call is fulfilled at home, and the user takes a second photo and uses
  it: the flag is up and the first photo's text is the result. Every event of the run
  is one the rendered screen offers.
\<close>

theorem stale_result_while_analyzing:
  "run offered [OpenCamera, Captured ''img1'', UsePhoto, BackToHome,
      AnalysisSettled 0 (Fulfilled ''A red bicycle.''), OpenCamera, Captured ''img2'', UsePhoto]
     (start :: int config) =
   Some \<lparr>app = \<lparr>view = Analysis, imageSrc = Some ''img2'', location = None,
                locationError = None, isLoadingLocation = False,
                analysisResult = Some ''A red bicycle.'', isAnalyzing = True, error = None\<rparr>,
         inflight = [(''img2'', None)], locating = 0\<rparr>"
  by (simp add: start_def initial_def handleOpenCamera_def handleCapture_def handleUsePhoto_def
      handleBackToHome_def)

text \<open>
  C6, amended: in every state reached from the initial one by events the rendered screen
  offers, none of them the fulfilment of a call after the view has left the analysis, the
  result is absent whenever the in-progress flag is up.
\<close>

theorem analyzing_result_absent:
  assumes "run timely es start = Some c" and "isAnalyzing (app c)"
  shows "analysisResult (app c) = None"
proof -
  have "isAnalyzing (app c) \<or> view (app c) \<noteq> Analysis \<longrightarrow> analysisResult (app c) = None"
  proof (rule run_invariant [where P = "\<lambda>c. isAnalyzing (app c) \<or> view (app c) \<noteq> Analysis
           \<longrightarrow> analysisResult (app c) = None", OF _ assms(1)])
    show "isAnalyzing (app (start :: 'a config)) \<or> view (app (start :: 'a config)) \<noteq> Analysis
            \<longrightarrow> analysisResult (app (start :: 'a config)) = None"
      by (simp add: start_def initial_def)
  next
    fix e and c c' :: "'a config"
    assume "timely c e" "dispatch e c = Some c'"
      "isAnalyzing (app c) \<or> view (app c) \<noteq> Analysis \<longrightarrow> analysisResult (app c) = None"
    then show "isAnalyzing (app c') \<or> view (app c') \<noteq> Analysis \<longrightarrow> analysisResult (app c') = None"
      by (rule dispatch_timely_result)
  qed
  with assms(2) show ?thesis by simp
qed

theorem analyzing_result_absent_witness:
  "run timely [OpenCamera, Captured ''img1'', UsePhoto] (start :: int config) =
     Some \<lparr>app = \<lparr>view = Analysis, imageSrc = Some ''img1'', location = None,
                  locationError = None, isLoadingLocation = False, analysisResult = None,
                  isAnalyzing = True, error = None\<rparr>,
           inflight = [(''img1'', None)], locating = 0\<rparr> \<and>
   isAnalyzing (app \<lparr>app = \<lparr>view = Analysis, imageSrc = Some ''img1'', location = None,
                  locationError = None, isLoadingLocation = False, analysisResult = None,
                  isAnalyzing = True, error = None\<rparr>,
           inflight = [(''img1'', None)] :: int analysis_call list, locating = (0::nat)\<rparr>) \<and>
   analysisResult (app \<lparr>app = \<lparr>view = Analysis, imageSrc = Some ''img1'', location = None,
                  locationError = None, isLoadingLocation = False, analysisResult = None,
                  isAnalyzing = True, error = None\<rparr>,
           inflight = [(''img1'', None)] :: int analysis_call list, locating = (0::nat)\<rparr>) = None"
proof -
  have r: "run timely [OpenCamera, Captured ''img1'', UsePhoto] (start :: int config) =
     Some \<lparr>app = \<lparr>view = Analysis, imageSrc = Some ''img1'', location = None,
                  locationError = None, isLoadingLocation = False, analysisResult = None,
                  isAnalyzing = True, error = None\<rparr>,
           inflight = [(''img1'', None)], locating = 0\<rparr>"
    by (simp add: start_def initial_def handleOpenCamera_def handleCapture_def handleUsePhoto_def)
  have a: "isAnalyzing (app \<lparr>app = \<lparr>view = Analysis, imageSrc = Some ''img1'', location = None,
                  locationError = None, isLoadingLocation = False, analysisResult = None,
                  isAnalyzing = True, error = None\<rparr>,
           inflight = [(''img1'', None)] :: int analysis_call list, locating = (0::nat)\<rparr>)"
    by simp
  from analyzing_result_absent [OF r a] r a show ?thesis by simp
qed

end
